theory Spec2Isabelle
  imports Main "HOL-Library.Word"
begin

section \<open>Data model of healthcheck.go\<close>

text \<open>
  Go pointers are modelled as \<open>nat option\<close>: \<open>None\<close> is \<open>nil\<close>, \<open>Some a\<close> is the
  address \<open>a\<close> of a live object in the store. The store holds the three kinds of
  objects the hosts reach through pointers (hosts, DNS clients, transports), so that two
  hosts holding the same transport address share one transport, as in the code.
  Dereferencing \<open>nil\<close> is a panic; every panic of the code is a value of \<open>panic\<close>.
  The log lines (\<open>log.Warningf\<close>, \<open>log.Debugf\<close>) are left out: no result and no
  field of the store depends on them.
\<close>

type_synonym ptr = "nat option"

type_synonym Duration = "64 word"

type_synonym error = string

datatype panic = NilPointerDereference | CloseOfNilChannel | CloseOfClosedChannel

text \<open>\<open>time.Second\<close>, in nanoseconds.\<close>

definition Second :: Duration where
  "Second = 1000000000"

text \<open>\<open>type Transport struct\<close>; \<open>tlsConfig\<close> is a \<open>*tls.Config\<close>.\<close>

record Transport =
  forceTcp :: bool
  preferUdp :: bool
  expire :: Duration
  tlsConfig :: ptr

text \<open>
  The two fields of \<open>dns.Client\<close> (github.com/miekg/dns) that the code writes and reads.
\<close>

record dns_Client =
  Net :: string
  TLSConfig :: ptr

text \<open>
  \<open>type UpstreamHost struct\<close>. \<open>downFunc\<close> is a function value: \<open>None\<close> is the nil
  function, \<open>Some f\<close> names a function whose meaning the environment gives. \<open>c\<close> and
  \<open>transport\<close> are pointers into the store.
\<close>

record UpstreamHost =
  addr :: string
  fails :: "32 word"
  downFunc :: "nat option"
  c :: ptr
  transport :: ptr

record heap =
  host_at :: "nat \<Rightarrow> UpstreamHost"
  client_at :: "nat \<Rightarrow> dns_Client"
  transport_at :: "nat \<Rightarrow> Transport"

text \<open>
  The part of \<open>dns.Msg\<close> (github.com/miekg/dns) that the code reads or that the probe
  sets: the header fields \<open>Id\<close>, \<open>Response\<close>, \<open>Opcode\<close>, \<open>RecursionDesired\<close> and the
  question section. A question is name, type and class.
\<close>

record dns_Question =
  Name :: string
  Qtype :: "16 word"
  Qclass :: "16 word"

record dns_Msg =
  msg_Id :: "16 word"
  Response :: bool
  Opcode :: int
  RecursionDesired :: bool
  Question :: "dns_Question list"

text \<open>Constants of github.com/miekg/dns.\<close>

definition TypeNS :: "16 word" where
  "TypeNS = 2"

definition ClassINET :: "16 word" where
  "ClassINET = 1"

definition OpcodeQuery :: int where
  "OpcodeQuery = 0"

definition MinMsgSize :: "16 word" where
  "MinMsgSize = 512"

text \<open>\<open>&dns.Msg{}\<close>: every field has its zero value.\<close>

definition empty_Msg :: dns_Msg where
  "empty_Msg = \<lparr>msg_Id = 0, Response = False, Opcode = 0, RecursionDesired = False,
     Question = []\<rparr>"

text \<open>
  \<open>(*dns.Msg).SetQuestion\<close> is a function of the library github.com/miekg/dns, which the
  code calls to build the probe. The library's function is
  \<^verbatim>\<open>
  func (dns *Msg) SetQuestion(z string, t uint16) *Msg {
      dns.Id = Id()
      dns.RecursionDesired = true
      dns.Question = make([]Question, 1)
      dns.Question[0] = Question{z, t, ClassINET}
      return dns
  }
  \<close>
  The random identifier \<open>Id()\<close> is the parameter \<open>i\<close>.
\<close>

definition SetQuestion :: "16 word \<Rightarrow> dns_Msg \<Rightarrow> string \<Rightarrow> 16 word \<Rightarrow> dns_Msg" where
  "SetQuestion i m z t =
     m\<lparr>msg_Id := i, RecursionDesired := True,
       Question := [\<lparr>Name = z, Qtype = t, Qclass = ClassINET\<rparr>]\<rparr>"

text \<open>
  A connection \<open>*dns.Conn\<close>: what the network gave, and the \<open>UDPSize\<close> field that
  \<open>Exchange\<close> writes.
\<close>

record dns_Conn =
  conn_id :: nat
  UDPSize :: "16 word"

text \<open>
  The two library calls \<open>Dial\<close> can end in, with their arguments: network (the effective
  protocol), address, TLS configuration and timeout.
\<close>

datatype dial_call =
    DialTimeout (network: string) (address: string) (timeout: Duration)
  | DialTimeoutWithTLS (network: string) (address: string) (tls: ptr) (timeout: Duration)

text \<open>
  The network is a parameter: what dialling gives (a connection or an error), what the
  probe exchange of the client gives (message, round trip time, error, as
  \<open>dns.Client.Exchange\<close> returns them), what writing and reading on a connection give,
  and the identifier \<open>dns.Id()\<close> draws for the probe.
\<close>

record net =
  dial :: "dial_call \<Rightarrow> error + dns_Conn"
  exchange :: "dns_Client \<Rightarrow> dns_Msg \<Rightarrow> string \<Rightarrow> dns_Msg option \<times> Duration \<times> error option"
  WriteMsg :: "dns_Conn \<Rightarrow> dns_Msg \<Rightarrow> error option"
  ReadMsg :: "dns_Conn \<Rightarrow> dns_Msg option \<times> error option"
  new_Id :: "16 word"

text \<open>
  The request of the forwarding layer (\<open>request.Request\<close> of CoreDNS): the results of its
  methods \<open>Proto()\<close> and \<open>Size()\<close>, and its field \<open>Req\<close>.
\<close>

record Request =
  Proto :: string
  Size :: int
  Req :: dns_Msg

text \<open>
  The environment gives the functions the code calls through function values and
  interfaces: the down-predicates by name, the \<open>Select\<close> of each \<open>Policy\<close> value by name,
  and the \<open>Select\<close> of the built-in \<open>Random\<close> policy (policy.go, not among the sources).
  A pick is a host pointer, \<open>nil\<close> when the policy has no candidate.
\<close>

record env =
  downFuncs :: "nat \<Rightarrow> heap \<Rightarrow> ptr \<Rightarrow> bool"
  Policy_Select :: "nat \<Rightarrow> heap \<Rightarrow> ptr list \<Rightarrow> ptr"
  Random_Select :: "heap \<Rightarrow> ptr list \<Rightarrow> ptr"

datatype chan = Open | Closed

text \<open>
  \<open>type HealthCheck struct\<close>. \<open>wg\<close> is the counter of the \<open>sync.WaitGroup\<close>, \<open>stopChan\<close>
  is \<open>nil\<close> or a channel that is open or closed, \<open>policy\<close> and \<open>spray\<close> are interface
  values (\<open>None\<close> is the nil interface).
\<close>

record HealthCheck =
  wg :: nat
  stopChan :: "chan option"
  hosts :: "ptr list"
  policy :: "nat option"
  spray :: "nat option"
  maxFails :: "32 word"
  checkInterval :: Duration
  hc_transport :: ptr

section \<open>UpstreamHost\<close>

text \<open>
  \<open>SetTLSConfig\<close> writes the client's \<open>Net\<close> and \<open>TLSConfig\<close>, then the transport's
  \<open>tlsConfig\<close>. A nil receiver, client or transport panics at the dereference.
\<close>

definition SetTLSConfig :: "heap \<Rightarrow> ptr \<Rightarrow> ptr \<Rightarrow> panic + heap" where
  "SetTLSConfig h uh config =
     (case uh of None \<Rightarrow> Inl NilPointerDereference
      | Some r \<Rightarrow>
         (case c (host_at h r) of None \<Rightarrow> Inl NilPointerDereference
          | Some cl \<Rightarrow>
             (let h1 = h\<lparr>client_at := (client_at h)(cl := (client_at h cl)\<lparr>Net := ''tcp-tls''\<rparr>)\<rparr>;
                  h2 = h1\<lparr>client_at := (client_at h1)(cl := (client_at h1 cl)\<lparr>TLSConfig := config\<rparr>)\<rparr>
              in (case transport (host_at h2 r) of None \<Rightarrow> Inl NilPointerDereference
                  | Some t \<Rightarrow>
                     Inr (h2\<lparr>transport_at :=
                            (transport_at h2)(t := (transport_at h2 t)\<lparr>tlsConfig := config\<rparr>)\<rparr>)))))"

text \<open>
  \<open>Dial\<close>: the \<open>switch\<close> takes the first case that holds; the timeout is
  \<open>1 * time.Second\<close>; the library call depends on the protocol chosen.
\<close>

definition Dial :: "net \<Rightarrow> heap \<Rightarrow> ptr \<Rightarrow> string \<Rightarrow> panic + (error + dns_Conn)" where
  "Dial n h uh proto =
     (case uh of None \<Rightarrow> Inl NilPointerDereference
      | Some r \<Rightarrow>
         (case transport (host_at h r) of None \<Rightarrow> Inl NilPointerDereference
          | Some t \<Rightarrow>
             (let proto1 =
                    (if tlsConfig (transport_at h t) \<noteq> None then ''tcp-tls''
                     else if forceTcp (transport_at h t) then ''tcp''
                     else if preferUdp (transport_at h t) then ''udp''
                     else proto);
                  timeout = 1 * Second
              in if proto1 = ''tcp-tls''
                 then Inr (dial n (DialTimeoutWithTLS proto1 (addr (host_at h r))
                                     (tlsConfig (transport_at h t)) timeout))
                 else Inr (dial n (DialTimeout proto1 (addr (host_at h r)) timeout)))))"

text \<open>
  \<open>Exchange\<close> returns the pair (message, error) of the code together with the store it
  leaves. The deadlines and the deferred \<open>Close\<close> act on the connection only; \<open>uint16\<close>
  of the size truncates.
\<close>

definition Exchange ::
  "net \<Rightarrow> heap \<Rightarrow> ptr \<Rightarrow> Request \<Rightarrow> panic + ((dns_Msg option \<times> error option) \<times> heap)" where
  "Exchange n h uh state =
     (case Dial n h uh (Proto state) of Inl p \<Rightarrow> Inl p
      | Inr (Inl err) \<Rightarrow> Inr ((None, Some err), h)
      | Inr (Inr conn) \<Rightarrow>
         (let conn1 = conn\<lparr>UDPSize := word_of_int (Size state)\<rparr>;
              conn2 = (if UDPSize conn1 < MinMsgSize then conn1\<lparr>UDPSize := MinMsgSize\<rparr>
                       else conn1)
          in (case WriteMsg n conn2 (Req state) of
                Some err \<Rightarrow> Inr ((None, Some err), h)
              | None \<Rightarrow> Inr (ReadMsg n conn2, h))))"

text \<open>
  \<open>send\<close> builds the probe, exchanges it through the host's client and clears the error
  when a message came back that is a response or has the opcode of a query. It returns
  (error, round trip time).
\<close>

definition send :: "net \<Rightarrow> heap \<Rightarrow> ptr \<Rightarrow> panic + (error option \<times> Duration)" where
  "send n h uh =
     (let ping = SetQuestion (new_Id n) empty_Msg ''.'' TypeNS
      in (case uh of None \<Rightarrow> Inl NilPointerDereference
          | Some r \<Rightarrow>
             (case c (host_at h r) of None \<Rightarrow> Inl NilPointerDereference
              | Some cl \<Rightarrow>
                 (case exchange n (client_at h cl) ping (addr (host_at h r)) of
                    (msg, rtt, err) \<Rightarrow>
                      (case msg of
                         Some m \<Rightarrow>
                           if err \<noteq> None \<and> (Response m \<or> Opcode m = OpcodeQuery)
                           then Inr (None, rtt) else Inr (err, rtt)
                       | None \<Rightarrow> Inr (err, rtt))))))"

text \<open>
  \<open>Check\<close> reads the client's \<open>Net\<close> (for the log line only), sends the probe, and adds 1
  to \<open>fails\<close> (\<open>atomic.AddUint32\<close>, on 32 bits) when \<open>send\<close> returns an error, stores 0
  (\<open>atomic.StoreUint32\<close>) otherwise. It returns the error and the store it leaves.
\<close>

definition Check :: "net \<Rightarrow> heap \<Rightarrow> ptr \<Rightarrow> panic + (error option \<times> heap)" where
  "Check n h uh =
     (case uh of None \<Rightarrow> Inl NilPointerDereference
      | Some r \<Rightarrow>
         (case c (host_at h r) of None \<Rightarrow> Inl NilPointerDereference
          | Some cl \<Rightarrow>
             (case send n h uh of Inl p \<Rightarrow> Inl p
              | Inr (err, rtt) \<Rightarrow>
                 (case err of
                    Some e \<Rightarrow>
                      Inr (Some e, h\<lparr>host_at := (host_at h)
                             (r := (host_at h r)\<lparr>fails := fails (host_at h r) + 1\<rparr>)\<rparr>)
                  | None \<Rightarrow>
                      Inr (None, h\<lparr>host_at := (host_at h)
                             (r := (host_at h r)\<lparr>fails := 0\<rparr>)\<rparr>)))))"

text \<open>
  \<open>Down\<close>: with no \<open>downFunc\<close> the host is down when \<open>fails > 0\<close>; otherwise \<open>downFunc\<close>
  decides, applied to the host.
\<close>

definition Down :: "env \<Rightarrow> heap \<Rightarrow> ptr \<Rightarrow> panic + bool" where
  "Down E h uh =
     (case uh of None \<Rightarrow> Inl NilPointerDereference
      | Some r \<Rightarrow>
         (case downFunc (host_at h r) of
            None \<Rightarrow> Inr (fails (host_at h r) > 0)
          | Some f \<Rightarrow> Inr (downFuncs E f h uh)))"

section \<open>HealthCheck\<close>

text \<open>
  A goroutine started by \<open>Start\<close>: the closure that runs \<open>healthCheckWorker\<close> and then
  \<open>wg.Done()\<close>. What the worker does once it runs (the ticker, the probes it fans out)
  is timing and scheduling and is not part of this model.
\<close>

datatype goroutine = Worker

text \<open>
  \<open>Start\<close> makes a new open channel and, only when \<open>checkInterval\<close> is not 0, adds 1 to
  the wait group and starts the worker. It returns the new state and the goroutines it
  started.
\<close>

definition Start :: "HealthCheck \<Rightarrow> HealthCheck \<times> goroutine list" where
  "Start hc =
     (let hc1 = hc\<lparr>stopChan := Some Open\<rparr>
      in if checkInterval hc1 \<noteq> 0 then (hc1\<lparr>wg := wg hc1 + 1\<rparr>, [Worker])
         else (hc1, []))"

text \<open>
  How a call ends: it returns, it panics, or it waits in \<open>wg.Wait()\<close> for the workers
  to call \<open>Done\<close>.
\<close>

datatype 'a outcome = Returns 'a | Panics panic | Waits 'a

text \<open>
  \<open>Stop\<close>: \<open>close\<close> panics on a nil channel and on a closed one; \<open>wg.Wait()\<close> returns
  at once when the counter is 0 and waits for the workers otherwise.
\<close>

definition Stop :: "HealthCheck \<Rightarrow> HealthCheck outcome" where
  "Stop hc =
     (case stopChan hc of
        None \<Rightarrow> Panics CloseOfNilChannel
      | Some Closed \<Rightarrow> Panics CloseOfClosedChannel
      | Some Open \<Rightarrow>
         (let hc1 = hc\<lparr>stopChan := Some Closed\<rparr>
          in if wg hc1 = 0 then Returns hc1 else Waits hc1))"

text \<open>
  The loop of \<open>Select\<close> that computes \<open>allDown\<close>: it stops at the first host that is not
  down.
\<close>

fun allDown_loop :: "env \<Rightarrow> heap \<Rightarrow> ptr list \<Rightarrow> panic + bool" where
  "allDown_loop E h [] = Inr True"
| "allDown_loop E h (host # rest) =
     (case Down E h host of Inl p \<Rightarrow> Inl p
      | Inr d \<Rightarrow> if \<not> d then Inr False else allDown_loop E h rest)"

text \<open>The calls \<open>Select\<close> makes to policies, in order.\<close>

datatype policy_call = Call_Random | Call_Policy nat

text \<open>
  \<open>Select\<close> returns the host pointer of the code (\<open>nil\<close> is "no candidate") and the
  policy calls it made.
\<close>

definition Select :: "env \<Rightarrow> heap \<Rightarrow> HealthCheck \<Rightarrow> panic + (ptr \<times> policy_call list)" where
  "Select E h hc =
     (let pool = hosts hc
      in if length pool = 1
         then (case Down E h (pool ! 0) of Inl p \<Rightarrow> Inl p
               | Inr d \<Rightarrow> if d \<and> spray hc = None then Inr (None, []) else Inr (pool ! 0, []))
         else
          (case allDown_loop E h pool of Inl p \<Rightarrow> Inl p
           | Inr allDown \<Rightarrow>
              if allDown
              then (case spray hc of None \<Rightarrow> Inr (None, [])
                    | Some s \<Rightarrow> Inr (Policy_Select E s h pool, [Call_Policy s]))
              else
               (case policy hc of
                  None \<Rightarrow>
                    (let hh = Random_Select E h pool
                     in if hh \<noteq> None then Inr (hh, [Call_Random])
                        else (case spray hc of None \<Rightarrow> Inr (None, [Call_Random])
                              | Some s \<Rightarrow>
                                 Inr (Policy_Select E s h pool, [Call_Random, Call_Policy s])))
                | Some p \<Rightarrow>
                    (let hh = Policy_Select E p h pool
                     in if hh \<noteq> None then Inr (hh, [Call_Policy p])
                        else (case spray hc of None \<Rightarrow> Inr (None, [Call_Policy p])
                              | Some s \<Rightarrow>
                                 Inr (Policy_Select E s h pool, [Call_Policy p, Call_Policy s]))))))"

section \<open>Concrete states\<close>

text \<open>
  A store with hosts 0 and 1, which share transport 0 and have clients 0 and 1. Host 1
  has failed once. Every other address holds a host with client 2, a down-predicate of
  its own, a failure counter at its largest value and transport 7, which has a TLS
  configuration.
\<close>

definition host0 :: UpstreamHost where
  "host0 = \<lparr>addr = ''10.0.0.1:53'', fails = 0, downFunc = None, c = Some 0, transport = Some 0\<rparr>"

definition host1 :: UpstreamHost where
  "host1 = \<lparr>addr = ''10.0.0.2:53'', fails = 1, downFunc = None, c = Some 1, transport = Some 0\<rparr>"

definition host2 :: UpstreamHost where
  "host2 = \<lparr>addr = ''10.0.0.3:53'', fails = 4294967295, downFunc = Some 0, c = Some 2,
     transport = Some 7\<rparr>"

definition heap0 :: heap where
  "heap0 = \<lparr>host_at = (\<lambda>a. if a = 0 then host0 else if a = 1 then host1 else host2),
     client_at = (\<lambda>a. \<lparr>Net = [], TLSConfig = None\<rparr>),
     transport_at = (\<lambda>a. \<lparr>forceTcp = False, preferUdp = (a = 0), expire = 0,
       tlsConfig = (if a = 7 then Some 3 else None)\<rparr>)\<rparr>"

text \<open>
  A network where dialling gives connection 0, the probe exchange times out with no
  message, and reads give an empty message.
\<close>

definition net0 :: net where
  "net0 = \<lparr>dial = (\<lambda>call. Inr \<lparr>conn_id = 0, UDPSize = 0\<rparr>),
     exchange = (\<lambda>cl m a. (None, 2000000000, Some ''i/o timeout'')),
     WriteMsg = (\<lambda>conn m. None),
     ReadMsg = (\<lambda>conn. (Some empty_Msg, None)),
     new_Id = 4660\<rparr>"

text \<open>
  The same network, except that every dial fails and the error is the protocol that was
  dialled: it shows which protocol \<open>Dial\<close> resolved.
\<close>

definition net1 :: net where
  "net1 = net0\<lparr>dial := (\<lambda>call. Inl (network call))\<rparr>"

definition req0 :: Request where
  "req0 = \<lparr>Proto = ''udp'', Size = 4096, Req = empty_Msg\<rparr>"

text \<open>
  An environment: down-predicate 0 never says down; policy 0 picks the first host of the
  pool, every other policy and \<open>Random\<close> find no candidate.
\<close>

definition env0 :: env where
  "env0 = \<lparr>downFuncs = (\<lambda>f h uh. False),
     Policy_Select = (\<lambda>p h pool. if p = 0 then (case pool of [] \<Rightarrow> None | x # xs \<Rightarrow> x) else None),
     Random_Select = (\<lambda>h pool. None)\<rparr>"

text \<open>
  A health check that was never started, with the single host 1 and a spray policy, and
  the same with the two hosts 0 and 1.
\<close>

definition hc0 :: HealthCheck where
  "hc0 = \<lparr>wg = 0, stopChan = None, hosts = [Some 1], policy = None, spray = Some 0,
     maxFails = 3, checkInterval = 0, hc_transport = Some 0\<rparr>"

definition hc1 :: HealthCheck where
  "hc1 = hc0\<lparr>hosts := [Some 0, Some 1]\<rparr>"

section \<open>Selection\<close>

text \<open>
  When no pointer of the pool is nil, the loop does not panic and \<open>allDown\<close> is true
  exactly when \<open>Down\<close> is true of every host of the pool.
\<close>

lemma allDown_loop_all:
  "\<forall>p \<in> set pool. p \<noteq> None \<Longrightarrow>
   allDown_loop E h pool = Inr (\<forall>p \<in> set pool. Down E h p = Inr True)"
proof (induction pool)
  case Nil
  show ?case by simp
next
  case (Cons p pool)
  then obtain r where r: "p = Some r" by auto
  show ?case using Cons by (auto simp: r Down_def split: option.splits)
qed

text \<open>
  C1. With a pool of exactly one host, \<open>Select\<close> returns nil (no candidate) when that
  host is down and no spray policy is configured; in every other case (the host is not
  down, or it is down and a spray policy is configured) it returns that host itself. In
  both cases it calls no policy: the list of policy calls is empty, so the spray policy's
  \<open>Select\<close> is never invoked.
\<close>

theorem Select_single_host:
  assumes "hosts hc = [Some r]"
  shows "Select E h hc =
     Inr (if Down E h (Some r) = Inr True \<and> spray hc = None then None else Some r, [])"
  using assms by (simp add: Select_def Down_def split: option.splits)

theorem Select_single_host_witness:
  "hosts hc0 = [Some 1] \<and> Down env0 heap0 (Some 1) = Inr True \<and> spray hc0 \<noteq> None \<and>
   Select env0 heap0 hc0 = Inr (Some 1, [])"
proof -
  have a: "hosts hc0 = [Some 1]" and s: "spray hc0 \<noteq> None"
    by (simp_all add: hc0_def)
  have d: "Down env0 heap0 (Some 1) = Inr True"
    by (simp add: Down_def heap0_def host1_def)
  have "Select env0 heap0 hc0 = Inr (Some 1, [])"
    using Select_single_host [OF a, of env0 heap0] s by simp
  then show ?thesis
    using a s d by blast
qed

text \<open>
  C2. With a pool of at least two hosts, \<open>Select\<close> follows the cascade: when every host
  is down it returns the spray policy's pick if a spray policy is configured and nil
  otherwise; when some host is not down it takes the pick of the primary policy (of the
  default \<open>Random\<close> policy when the primary policy is nil), returns it when it is not nil,
  and otherwise returns the spray policy's pick if a spray policy is configured and nil
  otherwise.
\<close>

theorem Select_multi_host:
  assumes "2 \<le> length (hosts hc)" and "\<forall>p \<in> set (hosts hc). p \<noteq> None"
  shows "\<exists>calls. Select E h hc =
     Inr (let pool = hosts hc;
              sprayed = (case spray hc of None \<Rightarrow> None | Some s \<Rightarrow> Policy_Select E s h pool)
          in if (\<forall>p \<in> set pool. Down E h p = Inr True) then sprayed
             else (let pick = (case policy hc of None \<Rightarrow> Random_Select E h pool
                               | Some p \<Rightarrow> Policy_Select E p h pool)
                   in if pick \<noteq> None then pick else sprayed), calls)"
proof -
  have len: "length (hosts hc) \<noteq> 1"
    using assms(1) by simp
  have loop: "allDown_loop E h (hosts hc) = Inr (\<forall>p \<in> set (hosts hc). Down E h p = Inr True)"
    using assms(2) by (rule allDown_loop_all)
  show ?thesis
    unfolding Select_def Let_def using len
    by (auto simp: loop split: option.splits)
qed

theorem Select_multi_host_witness:
  "2 \<le> length (hosts hc1) \<and> None \<notin> set (hosts hc1) \<and>
   Down env0 heap0 (Some 0) = Inr False \<and> policy hc1 = None \<and>
   Random_Select env0 heap0 (hosts hc1) = None \<and>
   (\<exists>calls. Select env0 heap0 hc1 = Inr (Policy_Select env0 0 heap0 (hosts hc1), calls))"
proof -
  have hs: "hosts hc1 = [Some 0, Some 1]" and sp: "spray hc1 = Some 0"
    and po: "policy hc1 = None"
    by (simp_all add: hc1_def hc0_def)
  have a: "2 \<le> length (hosts hc1)" and b: "\<forall>p \<in> set (hosts hc1). p \<noteq> None"
    by (simp_all add: hs)
  have d: "Down env0 heap0 (Some 0) = Inr False"
    by (simp add: Down_def heap0_def host0_def)
  have rnd: "Random_Select env0 heap0 (hosts hc1) = None"
    by (simp add: env0_def)
  have nd: "\<not> (\<forall>p \<in> set (hosts hc1). Down env0 heap0 p = Inr True)"
    using d by (simp add: hs)
  have pick: "(let pool = hosts hc1;
              sprayed = (case spray hc1 of None \<Rightarrow> None
                         | Some s \<Rightarrow> Policy_Select env0 s heap0 pool)
          in if (\<forall>p \<in> set pool. Down env0 heap0 p = Inr True) then sprayed
             else (let pick = (case policy hc1 of None \<Rightarrow> Random_Select env0 heap0 pool
                               | Some p \<Rightarrow> Policy_Select env0 p heap0 pool)
                   in if pick \<noteq> None then pick else sprayed)) =
      Policy_Select env0 0 heap0 (hosts hc1)"
    using nd by (simp add: Let_def sp po rnd)
  have "\<exists>calls. Select env0 heap0 hc1 = Inr (Policy_Select env0 0 heap0 (hosts hc1), calls)"
    using Select_multi_host [OF a b, of env0 heap0] unfolding pick .
  then show ?thesis
    using a b d po rnd by blast
qed

section \<open>Probing and the failure counter\<close>

text \<open>
  What \<open>send\<close> returns, from what the exchange of the probe gave: the error is cleared
  exactly when it comes with a message that is a response or has the query opcode.
\<close>

lemma send_classify:
  assumes "c (host_at h r) = Some cl"
    and "exchange n (client_at h cl) (SetQuestion (new_Id n) empty_Msg ''.'' TypeNS)
           (addr (host_at h r)) = (msg, rtt, err)"
  shows "send n h (Some r) =
     Inr (if err \<noteq> None \<and> (\<exists>m. msg = Some m \<and> (Response m \<or> Opcode m = OpcodeQuery))
          then None else err, rtt)"
  using assms by (cases msg) (simp_all add: send_def)

text \<open>
  C3. For every host with a client, every prior value of \<open>fails\<close> and every result
  (message, round trip time, error) of the probe exchange, one call of \<open>Check\<close> returns
  and leaves in \<open>fails\<close> either the prior value plus 1, when the exchange gave an error
  that is not accompanied by a message flagged as a response or carrying the query
  opcode, or 0 in every other case (also for an error accompanied by such a message).
  The addition is that of \<open>atomic.AddUint32\<close>, on 32-bit words.
\<close>

theorem Check_fails:
  assumes "c (host_at h r) = Some cl"
    and "exchange n (client_at h cl) (SetQuestion (new_Id n) empty_Msg ''.'' TypeNS)
           (addr (host_at h r)) = (msg, rtt, err)"
  shows "\<exists>res h'. Check n h (Some r) = Inr (res, h') \<and>
     fails (host_at h' r) =
       (if err \<noteq> None \<and> \<not> (\<exists>m. msg = Some m \<and> (Response m \<or> Opcode m = OpcodeQuery))
        then fails (host_at h r) + 1 else 0)"
proof (cases "err \<noteq> None \<and> \<not> (\<exists>m. msg = Some m \<and> (Response m \<or> Opcode m = OpcodeQuery))")
  case True
  then obtain e where e: "err = Some e" by auto
  have "send n h (Some r) = Inr (Some e, rtt)"
    using True by (simp add: send_classify [OF assms] e)
  then show ?thesis
    using True assms(1) by (simp add: Check_def)
next
  case False
  then have "send n h (Some r) = Inr (None, rtt)"
    by (auto simp add: send_classify [OF assms])
  then have "\<exists>res h'. Check n h (Some r) = Inr (res, h') \<and> fails (host_at h' r) = 0"
    using assms(1) by (simp add: Check_def)
  then show ?thesis
    using False by auto
qed

theorem Check_fails_witness:
  "c (host_at heap0 1) = Some 1 \<and> fails (host_at heap0 1) = 1 \<and>
   (\<exists>res h'. Check net0 heap0 (Some 1) = Inr (res, h') \<and> fails (host_at h' 1) = 2)"
proof -
  have a: "c (host_at heap0 1) = Some 1" and f: "fails (host_at heap0 1) = 1"
    by (simp_all add: heap0_def host1_def)
  have b: "exchange net0 (client_at heap0 1) (SetQuestion (new_Id net0) empty_Msg ''.'' TypeNS)
      (addr (host_at heap0 1)) = (None, 2000000000, Some ''i/o timeout'')"
    by (simp add: net0_def)
  show ?thesis
    using a f Check_fails [OF a b] by (simp add: f)
qed

text \<open>
  The counter has 32 bits: a failed probe of a host whose counter is at 4294967295 leaves
  it at 0.
\<close>

lemma Check_wraps_at_largest_count:
  "fails (host_at heap0 2) = 4294967295 \<and>
   (\<exists>e h'. Check net0 heap0 (Some 2) = Inr (Some e, h') \<and> fails (host_at h' 2) = 0)"
  by (simp add: Check_def send_def heap0_def host2_def net0_def)

text \<open>
  C4. For every host with no \<open>downFunc\<close>, \<open>Down\<close> is true exactly when \<open>fails > 0\<close>
  (false at 0, true from 1 on; \<open>maxFails\<close> is not consulted); for every host with a
  \<open>downFunc\<close>, \<open>Down\<close> is the value of that function applied to the host.
\<close>

theorem Down_default_or_downFunc:
  "(downFunc (host_at h r) = None \<longrightarrow>
      Down E h (Some r) = Inr (0 < unat (fails (host_at h r)))) \<and>
   (\<forall>f. downFunc (host_at h r) = Some f \<longrightarrow>
      Down E h (Some r) = Inr (downFuncs E f h (Some r)))"
  by (simp add: Down_def unat_gt_0 word_neq_0_conv)

theorem Down_default_or_downFunc_witness:
  "downFunc (host_at heap0 0) = None \<and> fails (host_at heap0 0) = 0 \<and>
   Down env0 heap0 (Some 0) = Inr False \<and>
   downFunc (host_at heap0 1) = None \<and> fails (host_at heap0 1) = 1 \<and>
   Down env0 heap0 (Some 1) = Inr True \<and>
   downFunc (host_at heap0 2) = Some 0 \<and>
   Down env0 heap0 (Some 2) = Inr (downFuncs env0 0 heap0 (Some 2))"
proof -
  have "downFunc (host_at heap0 0) = None \<and> fails (host_at heap0 0) = 0 \<and>
      Down env0 heap0 (Some 0) = Inr False"
    using Down_default_or_downFunc [of heap0 0 env0]
    by (simp add: heap0_def host0_def)
  moreover have "downFunc (host_at heap0 1) = None \<and> fails (host_at heap0 1) = 1 \<and>
      Down env0 heap0 (Some 1) = Inr True"
    using Down_default_or_downFunc [of heap0 1 env0]
    by (simp add: heap0_def host1_def)
  moreover have "downFunc (host_at heap0 2) = Some 0 \<and>
      Down env0 heap0 (Some 2) = Inr (downFuncs env0 0 heap0 (Some 2))"
    using Down_default_or_downFunc [of heap0 2 env0]
    by (simp add: heap0_def host2_def)
  ultimately show ?thesis
    by blast
qed

text \<open>
  C5. The claim is that the probe has one question, name "." and type NS, and the
  recursion-desired flag cleared. The probe \<open>send\<close> hands to the client's exchange has
  that one question, but its recursion-desired flag is set: \<open>SetQuestion\<close> sets it and
  \<open>send\<close> does not clear it, although the comment above \<open>Check\<close> announces a
  \<open>+norec\<close> message.
\<close>

theorem send_probe_sets_RecursionDesired:
  "\<exists>ping. RecursionDesired ping \<and>
     Question ping = [\<lparr>Name = ''.'', Qtype = TypeNS, Qclass = ClassINET\<rparr>] \<and>
     (\<forall>ex. send (n\<lparr>exchange := ex\<rparr>) h (Some r) =
        (case c (host_at h r) of None \<Rightarrow> Inl NilPointerDereference
         | Some cl \<Rightarrow>
            (case ex (client_at h cl) ping (addr (host_at h r)) of
               (msg, rtt, err) \<Rightarrow>
                 Inr (if err \<noteq> None \<and> (\<exists>m. msg = Some m \<and> (Response m \<or> Opcode m = OpcodeQuery))
                      then None else err, rtt))))"
proof -
  let ?ping = "SetQuestion (new_Id n) empty_Msg ''.'' TypeNS"
  have "RecursionDesired ?ping"
    by (simp add: SetQuestion_def)
  moreover have "Question ?ping = [\<lparr>Name = ''.'', Qtype = TypeNS, Qclass = ClassINET\<rparr>]"
    by (simp add: SetQuestion_def)
  moreover have "send (n\<lparr>exchange := ex\<rparr>) h (Some r) =
        (case c (host_at h r) of None \<Rightarrow> Inl NilPointerDereference
         | Some cl \<Rightarrow>
            (case ex (client_at h cl) ?ping (addr (host_at h r)) of
               (msg, rtt, err) \<Rightarrow>
                 Inr (if err \<noteq> None \<and> (\<exists>m. msg = Some m \<and> (Response m \<or> Opcode m = OpcodeQuery))
                      then None else err, rtt)))" for ex
    by (simp add: send_def split: option.splits prod.splits)
  ultimately show ?thesis
    by blast
qed

section \<open>Dialling and the shared transport\<close>

text \<open>
  C6, as stated, for every configuration: after \<open>SetTLSConfig(config)\<close> on host A, every
  \<open>Dial\<close> on a host B sharing A's transport resolves to "tcp-tls". It fails for the nil
  configuration: hosts 0 and 1 share transport 0, which prefers UDP; after
  \<open>SetTLSConfig(nil)\<close> on host 0, \<open>Dial("tcp")\<close> on host 1 dials "udp".
\<close>

theorem SetTLSConfig_nil_counterexample:
  "transport (host_at heap0 0) = transport (host_at heap0 1) \<and>
   \<not> isl (SetTLSConfig heap0 (Some 0) None) \<and>
   Dial net1 (projr (SetTLSConfig heap0 (Some 0) None)) (Some 1) ''tcp'' = Inr (Inl ''udp'') \<and>
   Dial net1 (projr (SetTLSConfig heap0 (Some 0) None)) (Some 1) ''tcp'' \<noteq> Inr (Inl ''tcp-tls'')"
  by (simp add: SetTLSConfig_def Dial_def heap0_def host0_def host1_def net1_def net0_def)

text \<open>
  C6, amended. For any two hosts A and B that share one transport, and every
  configuration, nil or not, \<open>SetTLSConfig(config)\<close> on A returns, sets the net mode of
  A's client to "tcp-tls" and installs the configuration on A's client and on the shared
  transport. When the configuration is not nil, every \<open>Dial\<close> on B in the store it
  leaves, whatever protocol the caller supplies and whatever the network, dials with the
  effective protocol "tcp-tls" (and with that configuration). When the configuration is
  nil, \<open>Dial\<close> on B falls through to the rest of the precedence: "tcp" when \<open>forceTcp\<close>
  is set, else "udp" when \<open>preferUdp\<close> is set, else the caller's protocol.
\<close>

theorem SetTLSConfig_shared_transport:
  assumes "c (host_at h a) = Some ca"
    and "transport (host_at h a) = Some t" and "transport (host_at h b) = Some t"
  shows "\<exists>h'. SetTLSConfig h (Some a) config = Inr h' \<and>
     Net (client_at h' ca) = ''tcp-tls'' \<and> TLSConfig (client_at h' ca) = config \<and>
     tlsConfig (transport_at h' t) = config \<and>
     (config \<noteq> None \<longrightarrow>
        (\<forall>n proto. Dial n h' (Some b) proto =
           Inr (dial n (DialTimeoutWithTLS ''tcp-tls'' (addr (host_at h b)) config
                  (1 * Second))))) \<and>
     (config = None \<longrightarrow>
        (\<forall>proto. \<exists>call. (\<forall>n. Dial n h' (Some b) proto = Inr (dial n call)) \<and>
           network call =
             (if forceTcp (transport_at h t) then ''tcp''
              else if preferUdp (transport_at h t) then ''udp''
              else proto)))"
proof -
  let ?h' = "h\<lparr>client_at :=
                  (client_at h)(ca := (client_at h ca)\<lparr>Net := ''tcp-tls'', TLSConfig := config\<rparr>),
                transport_at :=
                  (transport_at h)(t := (transport_at h t)\<lparr>tlsConfig := config\<rparr>)\<rparr>"
  have set: "SetTLSConfig h (Some a) config = Inr ?h'"
    using assms(1,2) by (simp add: SetTLSConfig_def Let_def)
  have writes: "Net (client_at ?h' ca) = ''tcp-tls'' \<and> TLSConfig (client_at ?h' ca) = config \<and>
      tlsConfig (transport_at ?h' t) = config"
    by simp
  have tls: "Dial n ?h' (Some b) proto =
      Inr (dial n (DialTimeoutWithTLS ''tcp-tls'' (addr (host_at h b)) config (1 * Second)))"
    if "config \<noteq> None" for n proto
    using assms(3) that by (simp add: Dial_def Let_def)
  have nil: "\<exists>call. (\<forall>n. Dial n ?h' (Some b) proto = Inr (dial n call)) \<and>
      network call =
        (if forceTcp (transport_at h t) then ''tcp''
         else if preferUdp (transport_at h t) then ''udp''
         else proto)"
    if "config = None" for proto
  proof -
    let ?p = "if forceTcp (transport_at h t) then ''tcp''
         else if preferUdp (transport_at h t) then ''udp''
         else proto"
    let ?call = "if ?p = ''tcp-tls''
         then DialTimeoutWithTLS ?p (addr (host_at h b)) None (1 * Second)
         else DialTimeout ?p (addr (host_at h b)) (1 * Second)"
    have "\<forall>n. Dial n ?h' (Some b) proto = Inr (dial n ?call)"
      using assms(3) that by (simp add: Dial_def Let_def)
    moreover have "network ?call = ?p"
      by simp
    ultimately show ?thesis
      by blast
  qed
  show ?thesis
    using set writes tls nil by blast
qed

theorem SetTLSConfig_shared_transport_witness:
  "c (host_at heap0 0) = Some 0 \<and> transport (host_at heap0 0) = Some 0 \<and>
   transport (host_at heap0 1) = Some 0 \<and>
   (\<exists>h'. SetTLSConfig heap0 (Some 0) (Some 5) = Inr h' \<and>
      Net (client_at h' 0) = ''tcp-tls'' \<and> TLSConfig (client_at h' 0) = Some 5 \<and>
      tlsConfig (transport_at h' 0) = Some 5 \<and>
      Dial net1 h' (Some 1) ''udp'' = Inr (Inl ''tcp-tls'')) \<and>
   (\<exists>h'. SetTLSConfig heap0 (Some 0) None = Inr h' \<and>
      Net (client_at h' 0) = ''tcp-tls'' \<and> TLSConfig (client_at h' 0) = None \<and>
      tlsConfig (transport_at h' 0) = None \<and>
      Dial net1 h' (Some 1) ''tcp'' = Inr (Inl ''udp''))"
proof -
  have a: "c (host_at heap0 0) = Some 0" and b: "transport (host_at heap0 0) = Some 0"
    and d: "transport (host_at heap0 1) = Some 0"
    by (simp_all add: heap0_def host0_def host1_def)
  have n: "dial net1 call = Inl (network call)" for call
    by (simp add: net1_def)
  have p: "(if forceTcp (transport_at heap0 0) then ''tcp''
         else if preferUdp (transport_at heap0 0) then ''udp''
         else ''tcp'') = ''udp''"
    by (simp add: heap0_def)
  from SetTLSConfig_shared_transport [OF a b d, of "Some 5"] obtain h1 where h1:
    "SetTLSConfig heap0 (Some 0) (Some 5) = Inr h1"
    "Net (client_at h1 0) = ''tcp-tls''" "TLSConfig (client_at h1 0) = Some 5"
    "tlsConfig (transport_at h1 0) = Some 5"
    "\<forall>n proto. Dial n h1 (Some 1) proto =
        Inr (dial n (DialTimeoutWithTLS ''tcp-tls'' (addr (host_at heap0 1)) (Some 5) (1 * Second)))"
    by blast
  have d1: "Dial net1 h1 (Some 1) ''udp'' = Inr (Inl ''tcp-tls'')"
    using h1(5) by (simp add: n)
  from SetTLSConfig_shared_transport [OF a b d, of None] obtain h2 where h2:
    "SetTLSConfig heap0 (Some 0) None = Inr h2"
    "Net (client_at h2 0) = ''tcp-tls''" "TLSConfig (client_at h2 0) = None"
    "tlsConfig (transport_at h2 0) = None"
    "\<forall>proto. \<exists>call. (\<forall>n. Dial n h2 (Some 1) proto = Inr (dial n call)) \<and>
       network call =
         (if forceTcp (transport_at heap0 0) then ''tcp''
          else if preferUdp (transport_at heap0 0) then ''udp''
          else proto)"
    by blast
  from h2(5) obtain call where call:
    "\<forall>n. Dial n h2 (Some 1) ''tcp'' = Inr (dial n call)" "network call = ''udp''"
    unfolding p by (metis p)
  have d2: "Dial net1 h2 (Some 1) ''tcp'' = Inr (Inl ''udp'')"
    using call by (simp add: n)
  show ?thesis
    using a b d h1(1-4) d1 h2(1-4) d2 by blast
qed

text \<open>
  C7. For every host with a transport and every protocol the caller supplies, \<open>Dial\<close>
  makes one library call, the same whatever the network answers; its protocol is
  "tcp-tls" when the transport's TLS configuration is not nil, else "tcp" when
  \<open>forceTcp\<close> is set, else "udp" when \<open>preferUdp\<close> is set, else the caller's protocol; its
  address is the host's; its timeout is one second (1000000000 nanoseconds).
\<close>

theorem Dial_precedence:
  assumes "transport (host_at h r) = Some t"
  shows "\<exists>call. (\<forall>n. Dial n h (Some r) proto = Inr (dial n call)) \<and>
     network call =
       (if tlsConfig (transport_at h t) \<noteq> None then ''tcp-tls''
        else if forceTcp (transport_at h t) then ''tcp''
        else if preferUdp (transport_at h t) then ''udp''
        else proto) \<and>
     address call = addr (host_at h r) \<and>
     unat (timeout call) = 1000000000"
proof -
  let ?p = "if tlsConfig (transport_at h t) \<noteq> None then ''tcp-tls''
        else if forceTcp (transport_at h t) then ''tcp''
        else if preferUdp (transport_at h t) then ''udp''
        else proto"
  let ?call = "if ?p = ''tcp-tls''
        then DialTimeoutWithTLS ?p (addr (host_at h r)) (tlsConfig (transport_at h t)) (1 * Second)
        else DialTimeout ?p (addr (host_at h r)) (1 * Second)"
  have "\<forall>n. Dial n h (Some r) proto = Inr (dial n ?call)"
    using assms by (simp add: Dial_def Let_def)
  moreover have "network ?call = ?p"
    by simp
  moreover have "address ?call = addr (host_at h r)"
    by simp
  moreover have "unat (timeout ?call) = 1000000000"
    by (simp add: Second_def)
  ultimately show ?thesis
    by blast
qed

theorem Dial_precedence_witness:
  "transport (host_at heap0 1) = Some 0 \<and>
   (\<exists>call. Dial net1 heap0 (Some 1) ''tcp'' = Inr (dial net1 call) \<and>
      network call = ''udp'' \<and> unat (timeout call) = 1000000000)"
proof -
  have a: "transport (host_at heap0 1) = Some 0"
    by (simp add: heap0_def host1_def)
  have p: "(if tlsConfig (transport_at heap0 0) \<noteq> None then ''tcp-tls''
        else if forceTcp (transport_at heap0 0) then ''tcp''
        else if preferUdp (transport_at heap0 0) then ''udp''
        else ''tcp'') = ''udp''"
    by (simp add: heap0_def)
  show ?thesis
    using a Dial_precedence [OF a, of "''tcp''"] unfolding p by blast
qed

section \<open>Real traffic leaves the failure counters alone\<close>

text \<open>A host with a transport can be dialled: \<open>Dial\<close> does not panic.\<close>

lemma Dial_returns:
  assumes "transport (host_at h r) = Some t"
  shows "\<exists>d. Dial n h (Some r) proto = Inr d"
  using assms by (cases "Dial n h (Some r) proto") (simp_all add: Dial_def Let_def split: if_splits)

text \<open>
  C8. For every host with a transport, every request and every network (so whether the
  dial fails, the write fails, the read fails or all succeed), \<open>Exchange\<close> returns and
  leaves the store as it found it; and whenever \<open>Exchange\<close> returns, on any receiver,
  the \<open>fails\<close> counter of every host is what it was. Of the other functions only
  \<open>SetTLSConfig\<close> and \<open>Check\<close> write to the store, and \<open>SetTLSConfig\<close> leaves every
  \<open>fails\<close> counter as it was too: \<open>Check\<close> is the only writer of \<open>fails\<close>.
\<close>

theorem Exchange_keeps_fails:
  assumes "transport (host_at h r) = Some t"
  shows "(\<exists>res. Exchange n h (Some r) state = Inr (res, h)) \<and>
     (\<forall>uh res h'. Exchange n h uh state = Inr (res, h') \<longrightarrow>
        (\<forall>a. fails (host_at h' a) = fails (host_at h a))) \<and>
     (\<forall>uh config h'. SetTLSConfig h uh config = Inr h' \<longrightarrow>
        (\<forall>a. fails (host_at h' a) = fails (host_at h a)))"
proof -
  obtain d where d: "Dial n h (Some r) (Proto state) = Inr d"
    using Dial_returns [OF assms] by blast
  have "\<exists>res. Exchange n h (Some r) state = Inr (res, h)"
    unfolding Exchange_def d by (simp add: Let_def split: sum.splits option.splits)
  moreover have "fails (host_at h' a) = fails (host_at h a)"
    if "Exchange n h uh state = Inr (res, h')" for uh res h' a
  proof -
    have "h' = h"
      using that unfolding Exchange_def
      by (simp add: Let_def split: sum.splits option.splits)
    then show ?thesis by simp
  qed
  moreover have "fails (host_at h' a) = fails (host_at h a)"
    if "SetTLSConfig h uh config = Inr h'" for uh config h' a
  proof -
    have "host_at h' = host_at h"
      using that unfolding SetTLSConfig_def
      by (auto simp add: Let_def split: option.splits)
    then show ?thesis by simp
  qed
  ultimately show ?thesis
    by blast
qed

theorem Exchange_keeps_fails_witness:
  "transport (host_at heap0 0) = Some 0 \<and>
   (\<exists>res. Exchange net0 heap0 (Some 0) req0 = Inr (res, heap0)) \<and>
   (\<exists>res. Exchange net1 heap0 (Some 0) req0 = Inr (res, heap0))"
proof -
  have a: "transport (host_at heap0 0) = Some 0"
    by (simp add: heap0_def host0_def)
  show ?thesis
    using a Exchange_keeps_fails [OF a, of net0 req0] Exchange_keeps_fails [OF a, of net1 req0]
    by blast
qed

section \<open>Start and Stop\<close>

text \<open>
  C9. When \<open>checkInterval\<close> is 0 and no worker was ever added to the wait group,
  \<open>Start\<close> makes the stop channel and starts no goroutine, and \<open>Stop\<close> on the state it
  leaves returns: it closes the channel without a panic and does not wait.
\<close>

theorem Stop_after_Start_without_worker:
  assumes "checkInterval hc = 0" and "wg hc = 0"
  shows "Start hc = (hc\<lparr>stopChan := Some Open\<rparr>, []) \<and>
     Stop (fst (Start hc)) = Returns (hc\<lparr>stopChan := Some Closed\<rparr>)"
  using assms by (simp add: Start_def Stop_def)

theorem Stop_after_Start_without_worker_witness:
  "checkInterval hc0 = 0 \<and> wg hc0 = 0 \<and> Start hc0 = (hc0\<lparr>stopChan := Some Open\<rparr>, []) \<and>
   Stop (fst (Start hc0)) = Returns (hc0\<lparr>stopChan := Some Closed\<rparr>)"
proof -
  have a: "checkInterval hc0 = 0" and b: "wg hc0 = 0"
    by (simp_all add: hc0_def)
  show ?thesis
    using a b Stop_after_Start_without_worker [OF a b] by blast
qed

text \<open>
  C10. \<open>Stop\<close> on a health check whose stop channel is nil, as it is until \<open>Start\<close>
  runs, panics on closing a nil channel; \<open>Start\<close> always leaves an open channel, and
  \<open>Stop\<close> right after \<open>Start\<close> does not panic.
\<close>

theorem Stop_without_Start_panics:
  "(stopChan hc = None \<longrightarrow> Stop hc = Panics CloseOfNilChannel) \<and>
   stopChan (fst (Start hc)) = Some Open \<and>
   (\<forall>p. Stop (fst (Start hc)) \<noteq> Panics p)"
  by (simp add: Start_def Stop_def Let_def)

theorem Stop_without_Start_panics_witness:
  "stopChan hc0 = None \<and> Stop hc0 = Panics CloseOfNilChannel"
proof -
  have a: "stopChan hc0 = None"
    by (simp add: hc0_def)
  show ?thesis
    using a Stop_without_Start_panics [of hc0] by blast
qed

end
